theory Spec2Isabelle
  imports Main "HOL-Library.Multiset" "HOL-Library.Sublist" "HOL-Library.Word"
begin

section \<open>Data model\<close>

text \<open>
  The pages under \<open>frontend/src/pages\<close> receive their entities as JSON objects from the
  REST service. Identifiers are strings, instants are integers (milliseconds on the
  time line), the enumerated fields are the closed sets of the data model.
\<close>

type_synonym ident = string
type_synonym time = int

datatype error = ValidationError | NotFoundError | ConflictError | StorageError

text \<open>A selected filter button: \<open>'all'\<close> or one of the statuses of the entity.\<close>

datatype 'a status_filter = All | Only 'a

text \<open>
  A rendered \<open><Badge className=...>children</Badge>\<close>. The children of a JSX element are
  literal text and embedded expressions, kept apart as the source writes them.
\<close>

datatype child = Text string | Num int

record badge =
  className :: string
  children :: "child list"

subsection \<open>Personas (Personas page, TalentDetail page)\<close>

record persona =
  persona_id :: ident
  persona_talent_id :: ident
  persona_name :: string
  risk_rating :: int

text \<open>\<open>getRiskBadge\<close> of the Personas page.\<close>

definition Personas_getRiskBadge :: "int \<Rightarrow> badge" where
  "Personas_getRiskBadge rating =
     (if rating \<ge> 80 then
        \<lparr>className = ''badge-danger'', children = [Text ''Critical ('', Num rating, Text '')'']\<rparr>
      else if rating \<ge> 50 then
        \<lparr>className = ''badge-warning'', children = [Text ''Medium ('', Num rating, Text '')'']\<rparr>
      else
        \<lparr>className = ''badge-success'', children = [Text ''Low ('', Num rating, Text '')'']\<rparr>)"

text \<open>\<open>getRiskBadge\<close> of the TalentDetail page.\<close>

definition TalentDetail_getRiskBadge :: "int \<Rightarrow> badge" where
  "TalentDetail_getRiskBadge rating =
     (if rating \<ge> 80 then \<lparr>className = ''badge-danger'', children = [Text ''Critical Risk'']\<rparr>
      else if rating \<ge> 50 then \<lparr>className = ''badge-warning'', children = [Text ''Medium Risk'']\<rparr>
      else \<lparr>className = ''badge-success'', children = [Text ''Low Risk'']\<rparr>)"

text \<open>
  The three Risk Summary cards of the Personas page, each the length of a filtered list:
  \<open>personas.filter(p => p.risk_rating < 50).length\<close>,
  \<open>personas.filter(p => p.risk_rating >= 50 && p.risk_rating < 80).length\<close>,
  \<open>personas.filter(p => p.risk_rating >= 80).length\<close>.
\<close>

definition lowRiskPersonas :: "persona list \<Rightarrow> persona list" where
  "lowRiskPersonas personas = filter (\<lambda>p. risk_rating p < 50) personas"

definition mediumRiskPersonas :: "persona list \<Rightarrow> persona list" where
  "mediumRiskPersonas personas =
     filter (\<lambda>p. risk_rating p \<ge> 50 \<and> risk_rating p < 80) personas"

definition criticalRiskPersonas :: "persona list \<Rightarrow> persona list" where
  "criticalRiskPersonas personas = filter (\<lambda>p. risk_rating p \<ge> 80) personas"

definition lowRiskCount :: "persona list \<Rightarrow> nat" where
  "lowRiskCount personas = length (lowRiskPersonas personas)"

definition mediumRiskCount :: "persona list \<Rightarrow> nat" where
  "mediumRiskCount personas = length (mediumRiskPersonas personas)"

definition criticalRiskCount :: "persona list \<Rightarrow> nat" where
  "criticalRiskCount personas = length (criticalRiskPersonas personas)"

text \<open>
  The tiers of the Risk and Readiness Scorer, in the words of the specification:
  low (below 50), medium (50 to 79), critical (80 and above).
\<close>

datatype risk_tier = Low | Medium | Critical

definition personaRiskTier :: "int \<Rightarrow> risk_tier" where
  "personaRiskTier riskRating =
     (if riskRating < 50 then Low else if riskRating \<le> 79 then Medium else Critical)"

text \<open>The tier a badge shows, read off its style class.\<close>

definition badgeTier :: "badge \<Rightarrow> risk_tier option" where
  "badgeTier b =
     (if className b = ''badge-danger'' then Some Critical
      else if className b = ''badge-warning'' then Some Medium
      else if className b = ''badge-success'' then Some Low
      else None)"

subsection \<open>Talents (Talents page)\<close>

text \<open>\<open>getReadinessColor\<close> of the Talents registry.\<close>

definition getReadinessColor :: "int \<Rightarrow> string" where
  "getReadinessColor score =
     (if score \<ge> 80 then ''text-emerald-400''
      else if score \<ge> 50 then ''text-amber-400''
      else ''text-red-400'')"

subsection \<open>Tasks (Tasks page)\<close>

datatype task_status = Pending | In_progress | Completed | Blocked

datatype priority = PLow | PMedium | PHigh | PUrgent

record task =
  task_id :: ident
  task_title :: string
  task_description :: string
  task_persona_id :: "ident option"
  task_type :: string
  task_priority :: priority
  task_status :: task_status
  task_deadline :: "time option"

text \<open>
  \<open>filteredTasks = filterStatus === 'all' ? tasks : tasks.filter(t => t.status === filterStatus)\<close>
\<close>

definition filteredTasks :: "task_status status_filter \<Rightarrow> task list \<Rightarrow> task list" where
  "filteredTasks filterStatus tasks =
     (case filterStatus of
        All \<Rightarrow> tasks
      | Only s \<Rightarrow> filter (\<lambda>t. task_status t = s) tasks)"

text \<open>The object \<open>groupedTasks\<close>, one array for each of its four keys.\<close>

record grouped_tasks =
  pending :: "task list"
  in_progress :: "task list"
  completed :: "task list"
  blocked :: "task list"

definition groupedTasks :: "task list \<Rightarrow> grouped_tasks" where
  "groupedTasks filtered =
     \<lparr>pending = filter (\<lambda>t. task_status t = Pending) filtered,
      in_progress = filter (\<lambda>t. task_status t = In_progress) filtered,
      completed = filter (\<lambda>t. task_status t = Completed) filtered,
      blocked = filter (\<lambda>t. task_status t = Blocked) filtered\<rparr>"

text \<open>Reading the group of a status off the object, as the board columns do.\<close>

fun groupOf :: "grouped_tasks \<Rightarrow> task_status \<Rightarrow> task list" where
  "groupOf g Pending = pending g"
| "groupOf g In_progress = in_progress g"
| "groupOf g Completed = completed g"
| "groupOf g Blocked = blocked g"

subsection \<open>Tasks: the status buttons of a task card\<close>

text \<open>The value of a status as the pages and the REST service write it.\<close>

fun taskStatusName :: "task_status \<Rightarrow> string" where
  "taskStatusName Pending = ''pending''"
| "taskStatusName In_progress = ''in_progress''"
| "taskStatusName Completed = ''completed''"
| "taskStatusName Blocked = ''blocked''"

text \<open>
  The buttons of \<open>TaskCard\<close>, each with the status its click hands to
  \<open>handleStatusUpdate\<close>: Start on a pending task, Complete on a task in progress, Block
  on either.
\<close>

definition taskCardButtons :: "task \<Rightarrow> string list" where
  "taskCardButtons t =
     (if task_status t = Pending then [''in_progress''] else []) @
     (if task_status t = In_progress then [''completed''] else []) @
     (if task_status t = Pending \<or> task_status t = In_progress then [''blocked''] else [])"

subsection \<open>Consents (Consents page)\<close>

datatype consent_status = Active | Revoked | Expired

datatype distribution_scope = Platform_only | Multi_platform | Exclusive | Unrestricted

record consent =
  consent_id :: ident
  consent_persona_id :: ident
  act_type :: string
  partner_ids :: "ident list"
  consent_scope :: distribution_scope
  revocation_rules :: string
  expiry_date :: "time option"
  consent_status :: consent_status
  consent_created_at :: time

fun consentStatusName :: "consent_status \<Rightarrow> string" where
  "consentStatusName Active = ''active''"
| "consentStatusName Revoked = ''revoked''"
| "consentStatusName Expired = ''expired''"

text \<open>
  \<open>getStatusBadge\<close> of the Consents page: the style is looked up in the table
  \<open>{active: 'badge-success', revoked: 'badge-danger', expired: 'badge-warning'}\<close> and the
  badge shows the status it was given. (The fallback \<open>|| styles.active\<close> serves values
  outside the three statuses, which the type leaves out.)
\<close>

fun Consents_styles :: "consent_status \<Rightarrow> string" where
  "Consents_styles Active = ''badge-success''"
| "Consents_styles Revoked = ''badge-danger''"
| "Consents_styles Expired = ''badge-warning''"

definition Consents_getStatusBadge :: "consent_status \<Rightarrow> badge" where
  "Consents_getStatusBadge status =
     \<lparr>className = Consents_styles status, children = [Text (consentStatusName status)]\<rparr>"

text \<open>
  \<open>filteredConsents = filterStatus === 'all' ? consents
       : consents.filter(c => c.status === filterStatus)\<close>
\<close>

definition filteredConsents :: "consent_status status_filter \<Rightarrow> consent list \<Rightarrow> consent list" where
  "filteredConsents filterStatus consents =
     (case filterStatus of
        All \<Rightarrow> consents
      | Only s \<Rightarrow> filter (\<lambda>c. consent_status c = s) consents)"

text \<open>The status cell of a table row: \<open>getStatusBadge(consent.status)\<close>.\<close>

definition statusCell :: "consent \<Rightarrow> badge" where
  "statusCell c = Consents_getStatusBadge (consent_status c)"

text \<open>The Revoke button of a row is rendered under \<open>consent.status === 'active'\<close>.\<close>

definition revokeOffered :: "consent \<Rightarrow> bool" where
  "revokeOffered c = (consent_status c = Active)"

subsection \<open>Incidents (Incidents page)\<close>

datatype incident_status = Open | Investigating | Resolved | Closed

datatype severity = SLow | SMedium | SHigh | SCritical

text \<open>
  Resolution notes are text typed into the dialog: a JavaScript string, that is, a
  sequence of UTF-16 code units.
\<close>

type_synonym code_unit = "16 word"
type_synonym utext = "code_unit list"

record incident =
  incident_id :: ident
  incident_type :: string
  incident_severity :: severity
  incident_description :: string
  incident_talent_id :: "ident option"
  incident_persona_id :: "ident option"
  incident_status :: incident_status
  resolution_notes :: "utext option"
  incident_created_at :: time
  resolved_at :: "time option"

text \<open>
  The characters \<open>String.prototype.trim\<close> strips: the white space and the line
  terminators of ECMAScript (TAB, LF, VT, FF, CR, SP, NBSP, the space separators of
  Unicode, LS, PS, and the byte order mark).
\<close>

definition isWhiteSpace :: "code_unit \<Rightarrow> bool" where
  "isWhiteSpace c =
     (c = 0x9 \<or> c = 0xA \<or> c = 0xB \<or> c = 0xC \<or> c = 0xD \<or> c = 0x20 \<or> c = 0xA0 \<or>
      c = 0x1680 \<or> (0x2000 \<le> c \<and> c \<le> 0x200A) \<or> c = 0x2028 \<or> c = 0x2029 \<or>
      c = 0x202F \<or> c = 0x205F \<or> c = 0x3000 \<or> c = 0xFEFF)"

definition trim :: "utext \<Rightarrow> utext" where
  "trim s = rev (dropWhile isWhiteSpace (rev (dropWhile isWhiteSpace s)))"

text \<open>
  \<open>encodeURIComponent\<close> throws \<open>URIError\<close> exactly on a string with an unpaired
  surrogate: reading from the left, a trail surrogate (DC00 to DFFF) on its own, or a
  lead surrogate (D800 to DBFF) that is last or not followed by a trail surrogate. On
  every other string it returns the escaped text, which the service reads back as the
  string it came from.
\<close>

definition isLeadSurrogate :: "code_unit \<Rightarrow> bool" where
  "isLeadSurrogate c = (0xD800 \<le> c \<and> c \<le> 0xDBFF)"

definition isTrailSurrogate :: "code_unit \<Rightarrow> bool" where
  "isTrailSurrogate c = (0xDC00 \<le> c \<and> c \<le> 0xDFFF)"

fun isWellFormed :: "utext \<Rightarrow> bool" where
  "isWellFormed [] = True"
| "isWellFormed [c] = (\<not> isLeadSurrogate c \<and> \<not> isTrailSurrogate c)"
| "isWellFormed (c # d # cs) =
     (if isLeadSurrogate c then isTrailSurrogate d \<and> isWellFormed cs
      else \<not> isTrailSurrogate c \<and> isWellFormed (d # cs))"

text \<open>
  The Resolve button of a row is rendered under
  \<open>incident.status === 'open' || incident.status === 'investigating'\<close>.
\<close>

definition resolveOffered :: "incident \<Rightarrow> bool" where
  "resolveOffered i = (incident_status i = Open \<or> incident_status i = Investigating)"

subsection \<open>Onboarding (TalentDetail page)\<close>

record onboarding_step =
  step_id :: ident
  step_name :: string
  step_completed :: bool
  completed_at :: "time option"

record onboarding_record =
  onboarding_talent_id :: ident
  steps :: "onboarding_step list"

datatype verification_status = VPending | VVerified | VRejected

record talent =
  talent_id :: ident
  display_id :: string
  verification_status :: verification_status
  onboarding_complete :: bool
  readiness_score :: int

text \<open>The Complete button of a step is rendered under \<open>!step.completed\<close>.\<close>

definition completeOffered :: "onboarding_step \<Rightarrow> bool" where
  "completeOffered s = (\<not> step_completed s)"

section \<open>The record engine behind the pages\<close>

text \<open>
  The pages call the REST service (\<open>PUT /consents/:id/revoke\<close>,
  \<open>PUT /incidents/:id/resolve\<close>, \<open>PUT /tasks/:id/status\<close>,
  \<open>PUT /onboarding/:talent/step/:step\<close>); the service itself is not among the
  sources. Its operations are therefore modelled from the specification, on an explicit
  state of the record store and the audit trail, each returning its result together
  with the state it leaves. The store is taken to be available: no operation below
  fails with \<open>StorageError\<close>.
\<close>

datatype entity_kind = KConsent | KIncident | KTask | KOnboarding

record audit_entry =
  audit_kind :: entity_kind
  audit_entity_id :: ident
  audit_action :: string
  audit_actor :: string
  audit_timestamp :: time

record state =
  consents :: "ident \<rightharpoonup> consent"
  incidents :: "ident \<rightharpoonup> incident"
  tasks :: "ident \<rightharpoonup> task"
  talents :: "ident \<rightharpoonup> talent"
  onboarding :: "ident \<rightharpoonup> onboarding_record"
  audit :: "audit_entry list"

text \<open>
  Modelled from the spec: the Audit Trail's \<open>append\<close>, absent from the sources. An
  entry is added at the end; no entry is changed or removed.
\<close>

definition append_audit :: "entity_kind \<Rightarrow> ident \<Rightarrow> string \<Rightarrow> string \<Rightarrow> time \<Rightarrow> state \<Rightarrow> state" where
  "append_audit k i action actor now st =
     st\<lparr>audit := audit st @
        [\<lparr>audit_kind = k, audit_entity_id = i, audit_action = action,
          audit_actor = actor, audit_timestamp = now\<rparr>]\<rparr>"

subsection \<open>Consent Ledger\<close>

text \<open>
  Modelled from the spec: the Consent Ledger's \<open>effectiveStatus\<close>, absent from the
  sources. If the stored status is revoked, revoked; else if an expiry is set and
  \<open>now \<ge> expiry\<close>, expired; else active.
\<close>

definition effectiveStatus :: "consent \<Rightarrow> time \<Rightarrow> consent_status" where
  "effectiveStatus c now =
     (if consent_status c = Revoked then Revoked
      else case expiry_date c of
             Some expiry \<Rightarrow> if now \<ge> expiry then Expired else Active
           | None \<Rightarrow> Active)"

text \<open>
  Modelled from the spec: the Consent Ledger's \<open>list(filterStatus?)\<close>, absent from the
  sources: all consents whose effective status matches, in input order.
\<close>

definition list_consents :: "consent_status status_filter \<Rightarrow> time \<Rightarrow> consent list \<Rightarrow> consent list" where
  "list_consents filterStatus now cs =
     (case filterStatus of
        All \<Rightarrow> cs
      | Only s \<Rightarrow> filter (\<lambda>c. effectiveStatus c now = s) cs)"

text \<open>
  Modelled from the spec: the Consent Ledger's \<open>revoke(consentId, actor)\<close>, absent from
  the sources. Unknown id: \<open>NotFoundError\<close>. Current (effective) status not active:
  \<open>ConflictError\<close>; a consent found expired on this write path has its persisted status
  brought up to date. Otherwise the status becomes revoked and an audit entry
  \<open>revoked\<close> is appended.
\<close>

definition revoke :: "state \<Rightarrow> ident \<Rightarrow> string \<Rightarrow> time \<Rightarrow> (error + consent) \<times> state" where
  "revoke st consentId actor now =
     (case consents st consentId of
        None \<Rightarrow> (Inl NotFoundError, st)
      | Some c \<Rightarrow>
          (case effectiveStatus c now of
             Revoked \<Rightarrow> (Inl ConflictError, st)
           | Expired \<Rightarrow>
               (Inl ConflictError,
                st\<lparr>consents := (consents st)(consentId \<mapsto> c\<lparr>consent_status := Expired\<rparr>)\<rparr>)
           | Active \<Rightarrow>
               (let c' = c\<lparr>consent_status := Revoked\<rparr> in
                (Inr c',
                 append_audit KConsent consentId ''revoked'' actor now
                   (st\<lparr>consents := (consents st)(consentId \<mapsto> c')\<rparr>)))))"

text \<open>A run of revoke calls, each on the state the one before left.\<close>

fun revokes :: "state \<Rightarrow> (ident \<times> string \<times> time) list \<Rightarrow> state" where
  "revokes st [] = st"
| "revokes st ((i, actor, now) # calls) = revokes (snd (revoke st i actor now)) calls"

text \<open>
  \<open>handleRevoke\<close> of the Consents page: nothing is sent unless the operator confirms;
  otherwise the request is sent and its outcome shown as a toast.
\<close>

datatype toast = Success string | Failure string

definition handleRevoke :: "bool \<Rightarrow> state \<Rightarrow> ident \<Rightarrow> string \<Rightarrow> time \<Rightarrow> toast option \<times> state" where
  "handleRevoke confirmed st consentId actor now =
     (if \<not> confirmed then (None, st)
      else case revoke st consentId actor now of
             (Inr _, st') \<Rightarrow> (Some (Success ''Consent revoked''), st')
           | (Inl _, st') \<Rightarrow> (Some (Failure ''Failed to revoke consent''), st'))"

subsection \<open>Incident Tracker\<close>

text \<open>
  Modelled from the spec: the Incident Tracker's
  \<open>resolve(incidentId, resolutionNotes, actor)\<close>, absent from the sources. Unknown id:
  \<open>NotFoundError\<close>. Status already resolved or closed: \<open>ConflictError\<close>. Resolution
  notes empty: \<open>ValidationError\<close>. Otherwise the status becomes resolved, the notes
  and the resolution time are stored and an audit entry \<open>resolved\<close> is appended.
\<close>

definition resolve :: "state \<Rightarrow> ident \<Rightarrow> utext \<Rightarrow> string \<Rightarrow> time \<Rightarrow> (error + incident) \<times> state" where
  "resolve st incidentId resolutionNotes actor now =
     (case incidents st incidentId of
        None \<Rightarrow> (Inl NotFoundError, st)
      | Some i \<Rightarrow>
          if incident_status i = Resolved \<or> incident_status i = Closed then
            (Inl ConflictError, st)
          else if resolutionNotes = [] then (Inl ValidationError, st)
          else
            (let i' = i\<lparr>incident_status := Resolved,
                        resolution_notes := Some resolutionNotes,
                        resolved_at := Some now\<rparr> in
             (Inr i',
              append_audit KIncident incidentId ''resolved'' actor now
                (st\<lparr>incidents := (incidents st)(incidentId \<mapsto> i')\<rparr>))))"

text \<open>
  \<open>handleResolve\<close> of the Incidents page, for the incident of the open dialog: notes
  that are empty after \<open>trim()\<close> are refused at once with a toast and nothing is sent.
  Otherwise the request is built inside the \<open>try\<close>: when \<open>encodeURIComponent\<close> throws
  on the notes, the \<open>catch\<close> shows the failure toast and nothing is sent; else the
  notes go to the service as typed and the outcome is shown as a toast.
\<close>

definition handleResolve :: "state \<Rightarrow> ident \<Rightarrow> utext \<Rightarrow> string \<Rightarrow> time \<Rightarrow> toast \<times> state" where
  "handleResolve st incidentId resolutionNotes actor now =
     (if trim resolutionNotes = [] then (Failure ''Resolution notes are required'', st)
      else if \<not> isWellFormed resolutionNotes then (Failure ''Failed to resolve incident'', st)
      else case resolve st incidentId resolutionNotes actor now of
             (Inr _, st') \<Rightarrow> (Success ''Incident resolved'', st')
           | (Inl _, st') \<Rightarrow> (Failure ''Failed to resolve incident'', st'))"

subsection \<open>Task Board\<close>

text \<open>Reading a status off the request; anything but the four names is no status.\<close>

definition parseTaskStatus :: "string \<Rightarrow> task_status option" where
  "parseTaskStatus s =
     (if s = ''pending'' then Some Pending
      else if s = ''in_progress'' then Some In_progress
      else if s = ''completed'' then Some Completed
      else if s = ''blocked'' then Some Blocked
      else None)"

text \<open>
  Modelled from the spec: the Task Board's \<open>setStatus(taskId, newStatus, actor)\<close>,
  absent from the sources. Unknown id: \<open>NotFoundError\<close>. A new status that is none of
  the four: \<open>ValidationError\<close>. Moving away from completed: \<open>ConflictError\<close>. Every
  other transition is carried out, with an audit entry.
\<close>

definition setStatus :: "state \<Rightarrow> ident \<Rightarrow> string \<Rightarrow> string \<Rightarrow> time \<Rightarrow> (error + task) \<times> state" where
  "setStatus st taskId newStatus actor now =
     (case tasks st taskId of
        None \<Rightarrow> (Inl NotFoundError, st)
      | Some t \<Rightarrow>
          (case parseTaskStatus newStatus of
             None \<Rightarrow> (Inl ValidationError, st)
           | Some s \<Rightarrow>
               if task_status t = Completed \<and> s \<noteq> Completed then (Inl ConflictError, st)
               else
                 (let t' = t\<lparr>task_status := s\<rparr> in
                  (Inr t',
                   append_audit KTask taskId ''status_changed'' actor now
                     (st\<lparr>tasks := (tasks st)(taskId \<mapsto> t')\<rparr>)))))"

text \<open>
  \<open>handleStatusUpdate\<close> of the Tasks page: the new status goes to the service as it
  is, with no check of its own, and the outcome is shown as a toast.
\<close>

definition handleStatusUpdate :: "state \<Rightarrow> ident \<Rightarrow> string \<Rightarrow> string \<Rightarrow> time \<Rightarrow> toast \<times> state" where
  "handleStatusUpdate st taskId newStatus actor now =
     (case setStatus st taskId newStatus actor now of
        (Inr _, st') \<Rightarrow> (Success ''Task updated'', st')
      | (Inl _, st') \<Rightarrow> (Failure ''Failed to update task'', st'))"

subsection \<open>Onboarding Progress Engine\<close>

text \<open>
  Modelled from the spec: the step set of the onboarding policy, absent from the
  sources; the five steps the data model names, in their order.
\<close>

definition defaultPolicy :: "(ident \<times> string) list" where
  "defaultPolicy =
     [(''identity_verification'', ''Identity verification''),
      (''contract_signing'', ''Contract signing''),
      (''persona_setup'', ''Persona setup''),
      (''safety_briefing'', ''Safety briefing''),
      (''platform_access'', ''Platform access'')]"

text \<open>
  Modelled from the spec: the engine's \<open>initialize(talentId)\<close>, absent from the
  sources: the fixed ordered step set of the policy, no step completed.
\<close>

definition initialize :: "(ident \<times> string) list \<Rightarrow> ident \<Rightarrow> onboarding_record" where
  "initialize policy talentId =
     \<lparr>onboarding_talent_id = talentId,
      steps = map (\<lambda>(i, n). \<lparr>step_id = i, step_name = n, step_completed = False,
                              completed_at = None\<rparr>) policy\<rparr>"


definition completedCount :: "onboarding_record \<Rightarrow> nat" where
  "completedCount r = length (filter step_completed (steps r))"

definition totalSteps :: "onboarding_record \<Rightarrow> nat" where
  "totalSteps r = length (steps r)"

definition allCompleted :: "onboarding_record \<Rightarrow> bool" where
  "allCompleted r = list_all step_completed (steps r)"

text \<open>Rounding the quotient \<open>n / d\<close> of naturals to the nearest integer, halves upwards.\<close>

definition roundDiv :: "nat \<Rightarrow> nat \<Rightarrow> nat" where
  "roundDiv n d = (2 * n + d) div (2 * d)"

text \<open>
  Modelled from the spec: the engine's \<open>progress(record)\<close>, absent from the sources:
  \<open>round(100 \<times> completedCount / totalSteps)\<close>. The quotient does not exist for a record
  without steps, and there the function has no value.
\<close>

definition progress :: "onboarding_record \<Rightarrow> nat option" where
  "progress r =
     (if totalSteps r = 0 then None
      else Some (roundDiv (100 * completedCount r) (totalSteps r)))"

text \<open>
  Completing the step of a given id in the step sequence: the first step of that id is
  looked for; if none is there the step is unknown, if it is completed already the
  call is in conflict, otherwise it is marked completed and stamped. No other step is
  touched.
\<close>

fun markCompleted :: "ident \<Rightarrow> time \<Rightarrow> onboarding_step list \<Rightarrow> error + onboarding_step list" where
  "markCompleted stepId now [] = Inl NotFoundError"
| "markCompleted stepId now (s # ss) =
     (if step_id s = stepId then
        (if step_completed s then Inl ConflictError
         else Inr (s\<lparr>step_completed := True, completed_at := Some now\<rparr> # ss))
      else
        (case markCompleted stepId now ss of
           Inl e \<Rightarrow> Inl e
         | Inr ss' \<Rightarrow> Inr (s # ss')))"

text \<open>
  Modelled from the spec: the engine's \<open>completeStep(talentId, stepId, actor)\<close>, absent
  from the sources. Talent or step unknown: \<open>NotFoundError\<close>. Step already completed:
  \<open>ConflictError\<close>. Otherwise the step is completed and stamped, an audit entry is
  appended, and when all steps are complete the talent's \<open>onboarding_complete\<close> flag is
  set in the same write.
\<close>

definition completeStep :: "state \<Rightarrow> ident \<Rightarrow> ident \<Rightarrow> string \<Rightarrow> time \<Rightarrow> (error + onboarding_record) \<times> state" where
  "completeStep st talentId stepId actor now =
     (case talents st talentId of
        None \<Rightarrow> (Inl NotFoundError, st)
      | Some tal \<Rightarrow>
          (case onboarding st talentId of
             None \<Rightarrow> (Inl NotFoundError, st)
           | Some r \<Rightarrow>
               (case markCompleted stepId now (steps r) of
                  Inl e \<Rightarrow> (Inl e, st)
                | Inr ss' \<Rightarrow>
                    (let r' = r\<lparr>steps := ss'\<rparr>;
                         tal' = (if allCompleted r' then tal\<lparr>onboarding_complete := True\<rparr>
                                 else tal) in
                     (Inr r',
                      append_audit KOnboarding talentId ''step_completed'' actor now
                        (st\<lparr>onboarding := (onboarding st)(talentId \<mapsto> r'),
                            talents := (talents st)(talentId \<mapsto> tal')\<rparr>))))))"

text \<open>A run of completeStep calls, each on the state the one before left.\<close>

fun completeSteps :: "state \<Rightarrow> (ident \<times> ident \<times> string \<times> time) list \<Rightarrow> state" where
  "completeSteps st [] = st"
| "completeSteps st ((talentId, stepId, actor, now) # calls) =
     completeSteps (snd (completeStep st talentId stepId actor now)) calls"

text \<open>
  \<open>handleCompleteStep\<close> of the TalentDetail page: the request is sent and its outcome
  shown as a toast.
\<close>

definition handleCompleteStep :: "state \<Rightarrow> ident \<Rightarrow> ident \<Rightarrow> string \<Rightarrow> time \<Rightarrow> toast \<times> state" where
  "handleCompleteStep st talentId stepId actor now =
     (case completeStep st talentId stepId actor now of
        (Inr _, st') \<Rightarrow> (Success ''Step completed'', st')
      | (Inl _, st') \<Rightarrow> (Failure ''Failed to complete step'', st'))"

section \<open>Example records\<close>

text \<open>A consent granted at instant 0 that expired at instant 5 and is still stored as active.\<close>

definition staleConsent :: consent where
  "staleConsent =
     \<lparr>consent_id = ''c1'', consent_persona_id = ''p1'', act_type = ''photo'',
      partner_ids = [], consent_scope = Platform_only, revocation_rules = ''any time'',
      expiry_date = Some 5, consent_status = Active, consent_created_at = 0\<rparr>"

text \<open>A consent without expiry, stored as active.\<close>

definition openConsent :: consent where
  "openConsent =
     \<lparr>consent_id = ''c2'', consent_persona_id = ''p1'', act_type = ''video'',
      partner_ids = [], consent_scope = Unrestricted, revocation_rules = ''any time'',
      expiry_date = None, consent_status = Active, consent_created_at = 0\<rparr>"

text \<open>A critical incident, open, without notes.\<close>

definition openIncident :: incident where
  "openIncident =
     \<lparr>incident_id = ''i1'', incident_type = ''leak'', incident_severity = SCritical,
      incident_description = ''content leaked'', incident_talent_id = None,
      incident_persona_id = None, incident_status = Open, resolution_notes = None,
      incident_created_at = 0, resolved_at = None\<rparr>"

definition pendingTask :: task where
  "pendingTask =
     \<lparr>task_id = ''t1'', task_title = ''Review'', task_description = [],
      task_persona_id = None, task_type = ''general'', task_priority = PMedium,
      task_status = Pending, task_deadline = None\<rparr>"

definition newTalent :: talent where
  "newTalent =
     \<lparr>talent_id = ''a1'', display_id = ''TAL-001'', verification_status = VPending,
      onboarding_complete = False, readiness_score = 0\<rparr>"

text \<open>A store holding the examples, with the onboarding of the talent just initialized.\<close>

definition exampleState :: state where
  "exampleState =
     \<lparr>consents = [''c1'' \<mapsto> staleConsent, ''c2'' \<mapsto> openConsent],
      incidents = [''i1'' \<mapsto> openIncident],
      tasks = [''t1'' \<mapsto> pendingTask],
      talents = [''a1'' \<mapsto> newTalent],
      onboarding = [''a1'' \<mapsto> initialize defaultPolicy ''a1''],
      audit = []\<rparr>"

section \<open>Risk tiers, readiness colours and the risk summary\<close>

text \<open>
  C8. The risk tier of a rating is low below 50, medium from 50 to 79 and critical from
  80 on, for every integer rating and so for every rating from 0 to 100. Both risk
  badges (Personas page and TalentDetail page) show exactly this tier, in style class
  and in label, and each Risk Summary card counts a persona exactly when its tier is
  the card's.
\<close>

theorem personaRiskTier_thresholds:
  "(r < 50 \<longrightarrow> personaRiskTier r = Low) \<and>
   (50 \<le> r \<and> r \<le> 79 \<longrightarrow> personaRiskTier r = Medium) \<and>
   (80 \<le> r \<longrightarrow> personaRiskTier r = Critical) \<and>
   badgeTier (Personas_getRiskBadge r) = Some (personaRiskTier r) \<and>
   badgeTier (TalentDetail_getRiskBadge r) = Some (personaRiskTier r) \<and>
   children (Personas_getRiskBadge r) =
     (case personaRiskTier r of
        Low \<Rightarrow> [Text ''Low ('', Num r, Text '')'']
      | Medium \<Rightarrow> [Text ''Medium ('', Num r, Text '')'']
      | Critical \<Rightarrow> [Text ''Critical ('', Num r, Text '')'']) \<and>
   children (TalentDetail_getRiskBadge r) =
     (case personaRiskTier r of
        Low \<Rightarrow> [Text ''Low Risk'']
      | Medium \<Rightarrow> [Text ''Medium Risk'']
      | Critical \<Rightarrow> [Text ''Critical Risk'']) \<and>
   lowRiskPersonas ps = filter (\<lambda>p. personaRiskTier (risk_rating p) = Low) ps \<and>
   mediumRiskPersonas ps = filter (\<lambda>p. personaRiskTier (risk_rating p) = Medium) ps \<and>
   criticalRiskPersonas ps = filter (\<lambda>p. personaRiskTier (risk_rating p) = Critical) ps"
proof -
  have low: "lowRiskPersonas ps = filter (\<lambda>p. personaRiskTier (risk_rating p) = Low) ps"
    unfolding lowRiskPersonas_def
    by (rule filter_cong) (simp_all add: personaRiskTier_def)
  have med: "mediumRiskPersonas ps = filter (\<lambda>p. personaRiskTier (risk_rating p) = Medium) ps"
    unfolding mediumRiskPersonas_def
    by (rule filter_cong) (auto simp: personaRiskTier_def)
  have crit: "criticalRiskPersonas ps = filter (\<lambda>p. personaRiskTier (risk_rating p) = Critical) ps"
    unfolding criticalRiskPersonas_def
    by (rule filter_cong) (auto simp: personaRiskTier_def)
  have badges: "badgeTier (Personas_getRiskBadge r) = Some (personaRiskTier r) \<and>
      badgeTier (TalentDetail_getRiskBadge r) = Some (personaRiskTier r)"
    by (simp add: personaRiskTier_def badgeTier_def Personas_getRiskBadge_def
        TalentDetail_getRiskBadge_def)
  have labels: "children (Personas_getRiskBadge r) =
     (case personaRiskTier r of
        Low \<Rightarrow> [Text ''Low ('', Num r, Text '')'']
      | Medium \<Rightarrow> [Text ''Medium ('', Num r, Text '')'']
      | Critical \<Rightarrow> [Text ''Critical ('', Num r, Text '')'']) \<and>
   children (TalentDetail_getRiskBadge r) =
     (case personaRiskTier r of
        Low \<Rightarrow> [Text ''Low Risk'']
      | Medium \<Rightarrow> [Text ''Medium Risk'']
      | Critical \<Rightarrow> [Text ''Critical Risk''])"
    by (simp add: personaRiskTier_def Personas_getRiskBadge_def TalentDetail_getRiskBadge_def)
  have tiers: "(r < 50 \<longrightarrow> personaRiskTier r = Low) \<and>
      (50 \<le> r \<and> r \<le> 79 \<longrightarrow> personaRiskTier r = Medium) \<and>
      (80 \<le> r \<longrightarrow> personaRiskTier r = Critical)"
    by (simp add: personaRiskTier_def)
  from tiers badges labels low med crit show ?thesis by blast
qed

theorem personaRiskTier_thresholds_witness:
  "personaRiskTier 0 = Low \<and> personaRiskTier 49 = Low \<and> personaRiskTier 50 = Medium \<and>
   personaRiskTier 79 = Medium \<and> personaRiskTier 80 = Critical \<and>
   personaRiskTier 100 = Critical \<and>
   badgeTier (Personas_getRiskBadge 79) = Some Medium \<and>
   badgeTier (TalentDetail_getRiskBadge 80) = Some Critical"
  using personaRiskTier_thresholds [of 0] personaRiskTier_thresholds [of 49]
    personaRiskTier_thresholds [of 50] personaRiskTier_thresholds [of 79]
    personaRiskTier_thresholds [of 80] personaRiskTier_thresholds [of 100]
  by simp

text \<open>
  C9. The three Risk Summary cards partition the personas of the page: taken together
  the three filtered lists hold every persona exactly as often as the page's list
  does, so each persona is counted by exactly one card, and the three counts add up to
  the number of personas.
\<close>

theorem risk_summary_partition:
  "mset (lowRiskPersonas ps) + mset (mediumRiskPersonas ps) + mset (criticalRiskPersonas ps)
     = mset ps \<and>
   lowRiskCount ps + mediumRiskCount ps + criticalRiskCount ps = length ps"
proof -
  have m: "mset (lowRiskPersonas ps) + mset (mediumRiskPersonas ps) +
      mset (criticalRiskPersonas ps) = mset ps"
    by (induction ps)
      (auto simp: lowRiskPersonas_def mediumRiskPersonas_def criticalRiskPersonas_def)
  have "lowRiskCount ps + mediumRiskCount ps + criticalRiskCount ps =
      size (mset (lowRiskPersonas ps) + mset (mediumRiskPersonas ps) +
        mset (criticalRiskPersonas ps))"
    by (simp add: lowRiskCount_def mediumRiskCount_def criticalRiskCount_def)
  also have "\<dots> = length ps" by (simp only: m size_mset)
  finally show ?thesis using m by simp
qed

text \<open>
  C10. The Talents registry colours a readiness score emerald when it is at least 80,
  amber when it is at least 50 and below 80, and red when it is below 50: the colour
  follows the thresholds 50 and 80 of the persona risk tiers.
\<close>

theorem getReadinessColor_thresholds:
  "(80 \<le> score \<longrightarrow> getReadinessColor score = ''text-emerald-400'') \<and>
   (50 \<le> score \<and> score < 80 \<longrightarrow> getReadinessColor score = ''text-amber-400'') \<and>
   (score < 50 \<longrightarrow> getReadinessColor score = ''text-red-400'') \<and>
   (getReadinessColor score = ''text-emerald-400'') = (personaRiskTier score = Critical) \<and>
   (getReadinessColor score = ''text-amber-400'') = (personaRiskTier score = Medium) \<and>
   (getReadinessColor score = ''text-red-400'') = (personaRiskTier score = Low)"
  by (simp add: getReadinessColor_def personaRiskTier_def)

theorem getReadinessColor_thresholds_witness:
  "getReadinessColor 100 = ''text-emerald-400'' \<and> getReadinessColor 80 = ''text-emerald-400'' \<and>
   getReadinessColor 79 = ''text-amber-400'' \<and> getReadinessColor 50 = ''text-amber-400'' \<and>
   getReadinessColor 49 = ''text-red-400'' \<and> getReadinessColor 0 = ''text-red-400''"
  using getReadinessColor_thresholds [of 100] getReadinessColor_thresholds [of 80]
    getReadinessColor_thresholds [of 79] getReadinessColor_thresholds [of 50]
    getReadinessColor_thresholds [of 49] getReadinessColor_thresholds [of 0]
  by simp

section \<open>The task board\<close>

lemma groupOf_groupedTasks:
  "groupOf (groupedTasks ts) s = filter (\<lambda>t. task_status t = s) ts"
  by (cases s) (simp_all add: groupedTasks_def)

lemma mset_groupedTasks:
  "mset (pending (groupedTasks ts)) + mset (in_progress (groupedTasks ts)) +
   mset (completed (groupedTasks ts)) + mset (blocked (groupedTasks ts)) = mset ts"
proof (induction ts)
  case Nil
  show ?case by (simp add: groupedTasks_def)
next
  case (Cons t ts)
  then show ?case by (cases "task_status t") (simp_all add: groupedTasks_def)
qed

text \<open>
  C5. Grouping is a partition of the task list it is given: the four groups together
  hold every task exactly as often as the list does; the group of a status holds
  exactly the tasks of that status, so a task is in the group keyed by its own status
  and in no other; and each group is a subsequence of the list, its tasks in the order
  the list has them.
\<close>

theorem groupedTasks_partition:
  "mset (pending (groupedTasks ts)) + mset (in_progress (groupedTasks ts)) +
     mset (completed (groupedTasks ts)) + mset (blocked (groupedTasks ts)) = mset ts \<and>
   groupOf (groupedTasks ts) s = filter (\<lambda>t. task_status t = s) ts \<and>
   (t \<in> set (groupOf (groupedTasks ts) s)) = (t \<in> set ts \<and> task_status t = s) \<and>
   count (mset (groupOf (groupedTasks ts) s)) t =
     (if task_status t = s then count (mset ts) t else 0) \<and>
   subseq (groupOf (groupedTasks ts) s) ts"
proof -
  have c: "count (mset (filter (\<lambda>t. task_status t = s) ts)) t =
      (if task_status t = s then count (mset ts) t else 0)"
    by (induction ts) simp_all
  show ?thesis
    using mset_groupedTasks [of ts] c
    by (simp add: groupOf_groupedTasks)
qed

section \<open>The consent ledger and the Consents page\<close>

lemma effectiveStatus_cases:
  "(consent_status c = Revoked \<longrightarrow> effectiveStatus c now = Revoked) \<and>
   (consent_status c \<noteq> Revoked \<and> (\<exists>e. expiry_date c = Some e \<and> e \<le> now) \<longrightarrow>
      effectiveStatus c now = Expired) \<and>
   (consent_status c \<noteq> Revoked \<and> \<not> (\<exists>e. expiry_date c = Some e \<and> e \<le> now) \<longrightarrow>
      effectiveStatus c now = Active)"
  by (auto simp: effectiveStatus_def split: option.splits)

text \<open>
  C1 (as amended). The effective status of a consent at an instant is revoked if the
  stored status is revoked, otherwise expired if an expiry is set and the instant has
  reached it, otherwise active. The read paths of the Consents page do not apply it:
  the list filter keeps, in input order, the consents whose status field equals the
  selected status (all of them under \<open>all\<close>), and the status cell shows the status
  field. Page and effective status agree on every list whose consents carry their
  effective status in the status field.
\<close>

theorem consent_read_paths:
  "(consent_status c = Revoked \<longrightarrow> effectiveStatus c now = Revoked) \<and>
   (consent_status c \<noteq> Revoked \<and> (\<exists>e. expiry_date c = Some e \<and> e \<le> now) \<longrightarrow>
      effectiveStatus c now = Expired) \<and>
   (consent_status c \<noteq> Revoked \<and> \<not> (\<exists>e. expiry_date c = Some e \<and> e \<le> now) \<longrightarrow>
      effectiveStatus c now = Active) \<and>
   filteredConsents All cs = cs \<and>
   filteredConsents (Only s) cs = filter (\<lambda>c. consent_status c = s) cs \<and>
   statusCell c =
     \<lparr>className = Consents_styles (consent_status c),
      children = [Text (consentStatusName (consent_status c))]\<rparr> \<and>
   ((\<forall>c \<in> set cs. consent_status c = effectiveStatus c now) \<longrightarrow>
      filteredConsents f cs = list_consents f now cs)"
proof -
  have agree: "(\<forall>c \<in> set cs. consent_status c = effectiveStatus c now) \<longrightarrow>
      filteredConsents f cs = list_consents f now cs"
  proof
    assume a: "\<forall>c \<in> set cs. consent_status c = effectiveStatus c now"
    show "filteredConsents f cs = list_consents f now cs"
    proof (cases f)
      case All
      then show ?thesis by (simp add: filteredConsents_def list_consents_def)
    next
      case (Only s')
      have "filter (\<lambda>c. consent_status c = s') cs = filter (\<lambda>c. effectiveStatus c now = s') cs"
        by (rule filter_cong) (simp_all add: a)
      with Only show ?thesis by (simp add: filteredConsents_def list_consents_def)
    qed
  qed
  have rest: "filteredConsents All cs = cs \<and>
     filteredConsents (Only s) cs = filter (\<lambda>c. consent_status c = s) cs \<and>
     statusCell c =
       \<lparr>className = Consents_styles (consent_status c),
        children = [Text (consentStatusName (consent_status c))]\<rparr>"
    by (simp add: filteredConsents_def statusCell_def Consents_getStatusBadge_def)
  from effectiveStatus_cases [of c now] rest agree show ?thesis by blast
qed

theorem consent_read_paths_witness:
  "effectiveStatus openConsent 10 = Active \<and>
   filteredConsents (Only Active) [openConsent] = list_consents (Only Active) 10 [openConsent] \<and>
   filteredConsents (Only Active) [openConsent] = [openConsent]"
  using consent_read_paths [of openConsent 10 "[openConsent]" Active "Only Active"]
  by (simp add: openConsent_def effectiveStatus_def filteredConsents_def list_consents_def)

text \<open>
  The claim as first stated, that list filtering and status display go by the
  effective status, fails on a consent stored as active whose expiry has passed: at
  instant 10 it is expired, the ledger lists it under expired, and the page lists it
  under active, shows it as active and leaves it out under expired.
\<close>

theorem stale_status_counterexample:
  "effectiveStatus staleConsent 10 = Expired \<and>
   list_consents (Only Expired) 10 [staleConsent] = [staleConsent] \<and>
   filteredConsents (Only Expired) [staleConsent] = [] \<and>
   filteredConsents (Only Expired) [staleConsent] \<noteq>
     list_consents (Only Expired) 10 [staleConsent] \<and>
   filteredConsents (Only Active) [staleConsent] = [staleConsent] \<and>
   children (statusCell staleConsent) = [Text ''active'']"
  by (simp add: staleConsent_def effectiveStatus_def list_consents_def filteredConsents_def
      statusCell_def Consents_getStatusBadge_def)

lemma revoke_not_active:
  "consents st cid = Some c \<Longrightarrow> effectiveStatus c now \<noteq> Active \<Longrightarrow>
   fst (revoke st cid actor now) = Inl ConflictError"
  by (cases "effectiveStatus c now") (simp_all add: revoke_def)

lemma revoke_keeps_revoked:
  "consents st i = Some c \<Longrightarrow> consent_status c = Revoked \<Longrightarrow>
   consents (snd (revoke st j actor now)) i = Some c"
  by (auto simp: revoke_def append_audit_def Let_def effectiveStatus_def
      split: option.splits consent_status.splits)

lemma revokes_keep_revoked:
  "consents st i = Some c \<Longrightarrow> consent_status c = Revoked \<Longrightarrow>
   consents (revokes st calls) i = Some c"
proof (induction calls arbitrary: st)
  case Nil
  then show ?case by simp
next
  case (Cons call calls)
  obtain j actor now where call: "call = (j, actor, now)" by (cases call) auto
  from Cons.prems have "consents (snd (revoke st j actor now)) i = Some c"
    by (rule revoke_keeps_revoked)
  then have "consents (revokes (snd (revoke st j actor now)) calls) i = Some c"
    using Cons.prems(2) by (rule Cons.IH)
  with call show ?case by simp
qed

lemma ex_state_c1: "consents exampleState ''c1'' = Some staleConsent"
  by (simp add: exampleState_def)

lemma ex_state_c2: "consents exampleState ''c2'' = Some openConsent"
  by (simp add: exampleState_def)

text \<open>
  C2. For a consent of the store, revoke fails with \<open>ConflictError\<close> whenever its
  current (effective) status is not active: when it is revoked already, and when its
  expiry has passed, whatever the stored status. When the status is active, revoke
  succeeds and stores the consent as revoked; from then on no run of revoke calls
  changes it, every further revoke of it fails with \<open>ConflictError\<close> and leaves the
  state as it is, and its effective status is revoked at every instant.
\<close>

theorem revoke_conflict_unless_active:
  assumes "consents st cid = Some c"
  shows "(effectiveStatus c now \<noteq> Active \<longrightarrow>
            fst (revoke st cid actor now) = Inl ConflictError) \<and>
         (consent_status c = Revoked \<longrightarrow>
            revoke st cid actor now = (Inl ConflictError, st)) \<and>
         ((\<exists>e. expiry_date c = Some e \<and> e \<le> now) \<longrightarrow>
            fst (revoke st cid actor now) = Inl ConflictError) \<and>
         (effectiveStatus c now = Active \<longrightarrow>
            (\<exists>st'. revoke st cid actor now = (Inr (c\<lparr>consent_status := Revoked\<rparr>), st') \<and>
               consents st' cid = Some (c\<lparr>consent_status := Revoked\<rparr>) \<and>
               (\<forall>calls. consents (revokes st' calls) cid = Some (c\<lparr>consent_status := Revoked\<rparr>)) \<and>
               (\<forall>actor' later. revoke st' cid actor' later = (Inl ConflictError, st')) \<and>
               (\<forall>later. effectiveStatus (c\<lparr>consent_status := Revoked\<rparr>) later = Revoked)))"
proof -
  have a: "effectiveStatus c now \<noteq> Active \<longrightarrow>
      fst (revoke st cid actor now) = Inl ConflictError"
    using assms by (auto intro: revoke_not_active)
  have b: "consent_status c = Revoked \<longrightarrow> revoke st cid actor now = (Inl ConflictError, st)"
    using assms by (simp add: revoke_def effectiveStatus_def)
  have c: "(\<exists>e. expiry_date c = Some e \<and> e \<le> now) \<longrightarrow>
      fst (revoke st cid actor now) = Inl ConflictError"
  proof
    assume "\<exists>e. expiry_date c = Some e \<and> e \<le> now"
    then have "effectiveStatus c now \<noteq> Active"
      by (auto simp: effectiveStatus_def)
    with a show "fst (revoke st cid actor now) = Inl ConflictError" by blast
  qed
  have d: "effectiveStatus c now = Active \<longrightarrow>
      (\<exists>st'. revoke st cid actor now = (Inr (c\<lparr>consent_status := Revoked\<rparr>), st') \<and>
         consents st' cid = Some (c\<lparr>consent_status := Revoked\<rparr>) \<and>
         (\<forall>calls. consents (revokes st' calls) cid = Some (c\<lparr>consent_status := Revoked\<rparr>)) \<and>
         (\<forall>actor' later. revoke st' cid actor' later = (Inl ConflictError, st')) \<and>
         (\<forall>later. effectiveStatus (c\<lparr>consent_status := Revoked\<rparr>) later = Revoked))"
  proof
    assume act: "effectiveStatus c now = Active"
    define c' where "c' = c\<lparr>consent_status := Revoked\<rparr>"
    define st' where "st' = append_audit KConsent cid ''revoked'' actor now
        (st\<lparr>consents := (consents st)(cid \<mapsto> c')\<rparr>)"
    have r: "revoke st cid actor now = (Inr c', st')"
      using assms act by (simp add: revoke_def c'_def st'_def Let_def)
    have s: "consents st' cid = Some c'" by (simp add: st'_def append_audit_def)
    have rv: "consent_status c' = Revoked" by (simp add: c'_def)
    have k: "\<forall>calls. consents (revokes st' calls) cid = Some c'"
      using s rv by (simp add: revokes_keep_revoked)
    have again: "\<forall>actor' later. revoke st' cid actor' later = (Inl ConflictError, st')"
      using s rv by (simp add: revoke_def effectiveStatus_def)
    have eff: "\<forall>later. effectiveStatus c' later = Revoked"
      using rv by (simp add: effectiveStatus_def)
    from r s k again eff show "\<exists>st'. revoke st cid actor now = (Inr (c\<lparr>consent_status := Revoked\<rparr>), st') \<and>
         consents st' cid = Some (c\<lparr>consent_status := Revoked\<rparr>) \<and>
         (\<forall>calls. consents (revokes st' calls) cid = Some (c\<lparr>consent_status := Revoked\<rparr>)) \<and>
         (\<forall>actor' later. revoke st' cid actor' later = (Inl ConflictError, st')) \<and>
         (\<forall>later. effectiveStatus (c\<lparr>consent_status := Revoked\<rparr>) later = Revoked)"
      unfolding c'_def by blast
  qed
  from a b c d show ?thesis by blast
qed

theorem revoke_conflict_unless_active_witness:
  "consents exampleState ''c1'' = Some staleConsent \<and>
   consent_status staleConsent = Active \<and>
   fst (revoke exampleState ''c1'' ''op'' 10) = Inl ConflictError \<and>
   consents exampleState ''c2'' = Some openConsent \<and>
   fst (revoke exampleState ''c2'' ''op'' 10) = Inr (openConsent\<lparr>consent_status := Revoked\<rparr>) \<and>
   fst (revoke (snd (revoke exampleState ''c2'' ''op'' 10)) ''c2'' ''op'' 11) = Inl ConflictError"
proof -
  have e1: "expiry_date staleConsent = Some 5 \<and> (5::int) \<le> 10"
    by (simp add: staleConsent_def)
  have a1: "effectiveStatus openConsent 10 = Active"
    by (simp add: openConsent_def effectiveStatus_def)
  from revoke_conflict_unless_active [OF ex_state_c1, of 10 "''op''"] e1
  have r1: "fst (revoke exampleState ''c1'' ''op'' 10) = Inl ConflictError" by blast
  from revoke_conflict_unless_active [OF ex_state_c2, of 10 "''op''"] a1
  obtain st' where r2: "revoke exampleState ''c2'' ''op'' 10 =
        (Inr (openConsent\<lparr>consent_status := Revoked\<rparr>), st')"
    and again: "\<forall>actor' later. revoke st' ''c2'' actor' later = (Inl ConflictError, st')"
    by blast
  from again have "fst (revoke st' ''c2'' ''op'' 11) = Inl ConflictError" by simp
  with r1 r2 ex_state_c1 ex_state_c2 show ?thesis by (simp add: staleConsent_def)
qed

section \<open>The incident tracker and the Incidents page\<close>

lemma trim_empty_iff: "trim s = [] \<longleftrightarrow> list_all isWhiteSpace s"
proof -
  have "trim s = [] \<longleftrightarrow> (\<forall>x\<in>set (dropWhile isWhiteSpace s). isWhiteSpace x)"
    by (simp add: trim_def)
  also have "\<dots> \<longleftrightarrow> dropWhile isWhiteSpace s = []"
  proof
    assume a: "\<forall>x\<in>set (dropWhile isWhiteSpace s). isWhiteSpace x"
    show "dropWhile isWhiteSpace s = []"
    proof (rule ccontr)
      assume ne: "dropWhile isWhiteSpace s \<noteq> []"
      then have "\<not> isWhiteSpace (hd (dropWhile isWhiteSpace s))" by (rule hd_dropWhile)
      moreover from ne have "hd (dropWhile isWhiteSpace s) \<in> set (dropWhile isWhiteSpace s)"
        by simp
      ultimately show False using a by blast
    qed
  next
    assume "dropWhile isWhiteSpace s = []"
    then show "\<forall>x\<in>set (dropWhile isWhiteSpace s). isWhiteSpace x"
      by (simp del: dropWhile_eq_Nil_conv)
  qed
  also have "\<dots> \<longleftrightarrow> list_all isWhiteSpace s"
    by (simp add: list_all_iff)
  finally show ?thesis .
qed

lemma resolve_cases:
  assumes "incidents st iid = Some i"
  shows "(incident_status i = Resolved \<or> incident_status i = Closed \<longrightarrow>
            resolve st iid resolutionNotes actor now = (Inl ConflictError, st)) \<and>
         ((incident_status i = Open \<or> incident_status i = Investigating) \<and> resolutionNotes = [] \<longrightarrow>
            resolve st iid resolutionNotes actor now = (Inl ValidationError, st)) \<and>
         ((incident_status i = Open \<or> incident_status i = Investigating) \<and> resolutionNotes \<noteq> [] \<longrightarrow>
            (\<exists>st'. resolve st iid resolutionNotes actor now =
               (Inr (i\<lparr>incident_status := Resolved, resolution_notes := Some resolutionNotes,
                       resolved_at := Some now\<rparr>), st') \<and>
               incidents st' iid =
                 Some (i\<lparr>incident_status := Resolved, resolution_notes := Some resolutionNotes,
                         resolved_at := Some now\<rparr>)))"
  using assms by (cases "incident_status i") (simp_all add: resolve_def Let_def append_audit_def)

lemma ex_state_i1: "incidents exampleState ''i1'' = Some openIncident"
  by (simp add: exampleState_def)

text \<open>
  C3 (as amended). For an incident of the store, resolving it from the Incidents page
  succeeds if and only if its status is open or investigating and the resolution notes
  are not blank, that is, hold a character that is not white space, and are
  well-formed text, without an unpaired surrogate; the incident is then stored as
  resolved, with the notes and the resolution time. Blank notes (empty or white space
  only) are refused by the page with "Resolution notes are required"; notes that are
  not well-formed fail in building the request, with "Failed to resolve incident";
  neither changes anything. At the service, resolving a resolved or closed incident
  fails with \<open>ConflictError\<close>, and resolving an open or investigating incident with
  empty notes fails with \<open>ValidationError\<close>.
\<close>

theorem handleResolve_succeeds_iff:
  assumes "incidents st iid = Some i"
  shows "((\<exists>st'. handleResolve st iid resolutionNotes actor now =
                   (Success ''Incident resolved'', st')) =
            ((incident_status i = Open \<or> incident_status i = Investigating) \<and>
             \<not> list_all isWhiteSpace resolutionNotes \<and> isWellFormed resolutionNotes)) \<and>
         ((incident_status i = Open \<or> incident_status i = Investigating) \<and>
            \<not> list_all isWhiteSpace resolutionNotes \<and> isWellFormed resolutionNotes \<longrightarrow>
            incidents (snd (handleResolve st iid resolutionNotes actor now)) iid =
              Some (i\<lparr>incident_status := Resolved, resolution_notes := Some resolutionNotes,
                      resolved_at := Some now\<rparr>)) \<and>
         (list_all isWhiteSpace resolutionNotes \<longrightarrow>
            handleResolve st iid resolutionNotes actor now =
              (Failure ''Resolution notes are required'', st)) \<and>
         (\<not> list_all isWhiteSpace resolutionNotes \<and> \<not> isWellFormed resolutionNotes \<longrightarrow>
            handleResolve st iid resolutionNotes actor now =
              (Failure ''Failed to resolve incident'', st)) \<and>
         (incident_status i = Resolved \<or> incident_status i = Closed \<longrightarrow>
            resolve st iid resolutionNotes actor now = (Inl ConflictError, st)) \<and>
         ((incident_status i = Open \<or> incident_status i = Investigating) \<and>
            resolutionNotes = [] \<longrightarrow>
            resolve st iid resolutionNotes actor now = (Inl ValidationError, st))"
proof -
  note rc = resolve_cases [OF assms, of resolutionNotes actor now]
  have blank: "list_all isWhiteSpace resolutionNotes \<longrightarrow>
      handleResolve st iid resolutionNotes actor now =
        (Failure ''Resolution notes are required'', st)"
  proof
    assume "list_all isWhiteSpace resolutionNotes"
    then have "trim resolutionNotes = []" by (simp only: trim_empty_iff)
    then show "handleResolve st iid resolutionNotes actor now =
        (Failure ''Resolution notes are required'', st)"
      by (simp add: handleResolve_def)
  qed
  have thrown: "\<not> list_all isWhiteSpace resolutionNotes \<and> \<not> isWellFormed resolutionNotes \<longrightarrow>
      handleResolve st iid resolutionNotes actor now =
        (Failure ''Failed to resolve incident'', st)"
    by (simp add: handleResolve_def trim_empty_iff)
  have ok: "(incident_status i = Open \<or> incident_status i = Investigating) \<and>
      \<not> list_all isWhiteSpace resolutionNotes \<and> isWellFormed resolutionNotes \<longrightarrow>
      (\<exists>st'. handleResolve st iid resolutionNotes actor now =
               (Success ''Incident resolved'', st')) \<and>
      incidents (snd (handleResolve st iid resolutionNotes actor now)) iid =
        Some (i\<lparr>incident_status := Resolved, resolution_notes := Some resolutionNotes,
                resolved_at := Some now\<rparr>)"
  proof
    assume a: "(incident_status i = Open \<or> incident_status i = Investigating) \<and>
      \<not> list_all isWhiteSpace resolutionNotes \<and> isWellFormed resolutionNotes"
    then have ne: "resolutionNotes \<noteq> []" by auto
    with a rc obtain st' where r: "resolve st iid resolutionNotes actor now =
        (Inr (i\<lparr>incident_status := Resolved, resolution_notes := Some resolutionNotes,
                resolved_at := Some now\<rparr>), st')"
      and s: "incidents st' iid =
        Some (i\<lparr>incident_status := Resolved, resolution_notes := Some resolutionNotes,
                resolved_at := Some now\<rparr>)"
      by blast
    from a have "trim resolutionNotes \<noteq> []" by (simp add: trim_empty_iff)
    with r a have "handleResolve st iid resolutionNotes actor now =
        (Success ''Incident resolved'', st')"
      by (simp add: handleResolve_def)
    with s show "(\<exists>st'. handleResolve st iid resolutionNotes actor now =
               (Success ''Incident resolved'', st')) \<and>
      incidents (snd (handleResolve st iid resolutionNotes actor now)) iid =
        Some (i\<lparr>incident_status := Resolved, resolution_notes := Some resolutionNotes,
                resolved_at := Some now\<rparr>)"
      by simp
  qed
  have conflict: "incident_status i = Resolved \<or> incident_status i = Closed \<longrightarrow>
      (\<nexists>st'. handleResolve st iid resolutionNotes actor now =
               (Success ''Incident resolved'', st'))"
  proof
    assume "incident_status i = Resolved \<or> incident_status i = Closed"
    with rc have "resolve st iid resolutionNotes actor now = (Inl ConflictError, st)" by blast
    then show "\<nexists>st'. handleResolve st iid resolutionNotes actor now =
        (Success ''Incident resolved'', st')"
      by (simp add: handleResolve_def)
  qed
  have status: "incident_status i = Open \<or> incident_status i = Investigating \<or>
      incident_status i = Resolved \<or> incident_status i = Closed"
    by (cases "incident_status i") simp_all
  have iff: "(\<exists>st'. handleResolve st iid resolutionNotes actor now =
                 (Success ''Incident resolved'', st')) =
      ((incident_status i = Open \<or> incident_status i = Investigating) \<and>
       \<not> list_all isWhiteSpace resolutionNotes \<and> isWellFormed resolutionNotes)"
  proof
    assume s: "\<exists>st'. handleResolve st iid resolutionNotes actor now =
        (Success ''Incident resolved'', st')"
    with blank have nb: "\<not> list_all isWhiteSpace resolutionNotes" by auto
    with s thrown have wf: "isWellFormed resolutionNotes" by auto
    from s conflict status have "incident_status i = Open \<or> incident_status i = Investigating"
      by blast
    with nb wf show "(incident_status i = Open \<or> incident_status i = Investigating) \<and>
       \<not> list_all isWhiteSpace resolutionNotes \<and> isWellFormed resolutionNotes" by simp
  next
    assume "(incident_status i = Open \<or> incident_status i = Investigating) \<and>
       \<not> list_all isWhiteSpace resolutionNotes \<and> isWellFormed resolutionNotes"
    with ok show "\<exists>st'. handleResolve st iid resolutionNotes actor now =
        (Success ''Incident resolved'', st')"
      by blast
  qed
  from iff ok blank thrown rc show ?thesis by blast
qed

theorem handleResolve_succeeds_iff_witness:
  "incidents exampleState ''i1'' = Some openIncident \<and>
   incident_status openIncident = Open \<and>
   resolve exampleState ''i1'' [] ''op'' 7 = (Inl ValidationError, exampleState) \<and>
   (\<exists>st'. handleResolve exampleState ''i1'' [112, 97, 116, 99, 104, 101, 100] ''op'' 7 =
      (Success ''Incident resolved'', st')) \<and>
   incidents (snd (handleResolve exampleState ''i1'' [112, 97, 116, 99, 104, 101, 100] ''op'' 7)) ''i1'' =
     Some (openIncident\<lparr>incident_status := Resolved,
             resolution_notes := Some [112, 97, 116, 99, 104, 101, 100],
             resolved_at := Some 7\<rparr>)"
proof -
  have o: "incident_status openIncident = Open" by (simp add: openIncident_def)
  have nb: "\<not> list_all isWhiteSpace [112, 97, 116, 99, 104, 101, 100]"
    by (simp add: isWhiteSpace_def)
  have wf: "isWellFormed [112, 97, 116, 99, 104, 101, 100]"
    by (simp add: isLeadSurrogate_def isTrailSurrogate_def)
  from handleResolve_succeeds_iff [OF ex_state_i1, of "[]" "''op''" 7] o
  have v: "resolve exampleState ''i1'' [] ''op'' 7 = (Inl ValidationError, exampleState)"
    by blast
  from handleResolve_succeeds_iff [OF ex_state_i1, of "[112, 97, 116, 99, 104, 101, 100]" "''op''" 7] o nb wf
  have "(\<exists>st'. handleResolve exampleState ''i1'' [112, 97, 116, 99, 104, 101, 100] ''op'' 7 =
      (Success ''Incident resolved'', st')) \<and>
    incidents (snd (handleResolve exampleState ''i1'' [112, 97, 116, 99, 104, 101, 100] ''op'' 7)) ''i1'' =
     Some (openIncident\<lparr>incident_status := Resolved,
             resolution_notes := Some [112, 97, 116, 99, 104, 101, 100],
             resolved_at := Some 7\<rparr>)"
    by blast
  with v o ex_state_i1 show ?thesis by blast
qed

text \<open>
  The claim as first stated, that resolve succeeds whenever the status is open or
  investigating and the notes are non-empty, fails for an open incident on notes of
  two spaces and on notes of a single lead surrogate: both are non-empty, and
  \<open>handleResolve\<close> refuses the first and fails on the second, leaving the store as it
  was.
\<close>

theorem blank_notes_counterexample:
  "incidents exampleState ''i1'' = Some openIncident \<and>
   incident_status openIncident = Open \<and>
   [32, 32] \<noteq> ([] :: utext) \<and>
   handleResolve exampleState ''i1'' [32, 32] ''op'' 7 =
     (Failure ''Resolution notes are required'', exampleState) \<and>
   [0xD800] \<noteq> ([] :: utext) \<and>
   handleResolve exampleState ''i1'' [0xD800] ''op'' 7 =
     (Failure ''Failed to resolve incident'', exampleState)"
proof -
  have t: "trim [32, 32] = []" by (simp add: trim_def isWhiteSpace_def)
  have h: "handleResolve exampleState ''i1'' [32, 32] ''op'' 7 =
      (Failure ''Resolution notes are required'', exampleState)"
    by (simp add: handleResolve_def t)
  have t': "trim [0xD800] \<noteq> []" by (simp add: trim_def isWhiteSpace_def)
  have w: "\<not> isWellFormed [0xD800]" by (simp add: isLeadSurrogate_def)
  have h': "handleResolve exampleState ''i1'' [0xD800] ''op'' 7 =
      (Failure ''Failed to resolve incident'', exampleState)"
    using t' w by (simp add: handleResolve_def)
  have o: "incident_status openIncident = Open" by (simp add: openIncident_def)
  from ex_state_i1 o h h' show ?thesis by simp
qed

section \<open>The task board: status transitions\<close>

lemma parse_name: "parseTaskStatus (taskStatusName s) = Some s"
  by (cases s) (simp_all add: parseTaskStatus_def)

lemma buttons_parse:
  "n \<in> set (taskCardButtons t) \<Longrightarrow>
   task_status t \<noteq> Completed \<and> (\<exists>s. parseTaskStatus n = Some s)"
  by (cases "task_status t") (auto simp: taskCardButtons_def parseTaskStatus_def)

lemma ex_state_t1: "tasks exampleState ''t1'' = Some pendingTask"
  by (simp add: exampleState_def)

text \<open>
  C4. For a task of the store and each of the four statuses, setStatus to that status
  fails with \<open>ConflictError\<close>, changing nothing, when the task is completed and the new
  status is another one; in every other case it succeeds and stores the task with the
  new status: no transition is guarded except those away from completed. The task card
  agrees: it offers no button on a completed task, and every button it offers leads
  to a successful update.
\<close>

theorem setStatus_transitions:
  assumes "tasks st tid = Some t"
  shows "(task_status t = Completed \<and> s \<noteq> Completed \<longrightarrow>
            setStatus st tid (taskStatusName s) actor now = (Inl ConflictError, st)) \<and>
         (task_status t \<noteq> Completed \<or> s = Completed \<longrightarrow>
            (\<exists>st'. setStatus st tid (taskStatusName s) actor now =
                      (Inr (t\<lparr>task_status := s\<rparr>), st') \<and>
                    tasks st' tid = Some (t\<lparr>task_status := s\<rparr>))) \<and>
         (task_status t = Completed \<longrightarrow> taskCardButtons t = []) \<and>
         (\<forall>n \<in> set (taskCardButtons t).
            \<exists>st'. handleStatusUpdate st tid n actor now = (Success ''Task updated'', st'))"
proof -
  have a: "task_status t = Completed \<and> s \<noteq> Completed \<longrightarrow>
      setStatus st tid (taskStatusName s) actor now = (Inl ConflictError, st)"
    using assms by (simp add: setStatus_def parse_name)
  have b: "task_status t \<noteq> Completed \<or> s = Completed \<longrightarrow>
      (\<exists>st'. setStatus st tid (taskStatusName s) actor now =
                (Inr (t\<lparr>task_status := s\<rparr>), st') \<and>
              tasks st' tid = Some (t\<lparr>task_status := s\<rparr>))"
    using assms by (auto simp: setStatus_def parse_name Let_def append_audit_def)
  have c: "task_status t = Completed \<longrightarrow> taskCardButtons t = []"
    by (simp add: taskCardButtons_def)
  have d: "\<forall>n \<in> set (taskCardButtons t).
      \<exists>st'. handleStatusUpdate st tid n actor now = (Success ''Task updated'', st')"
  proof
    fix n assume "n \<in> set (taskCardButtons t)"
    then obtain s' where "task_status t \<noteq> Completed" "parseTaskStatus n = Some s'"
      using buttons_parse by blast
    with assms show "\<exists>st'. handleStatusUpdate st tid n actor now = (Success ''Task updated'', st')"
      by (simp add: handleStatusUpdate_def setStatus_def Let_def)
  qed
  from a b c d show ?thesis by blast
qed

theorem setStatus_transitions_witness:
  "tasks exampleState ''t1'' = Some pendingTask \<and>
   fst (setStatus exampleState ''t1'' ''in_progress'' ''op'' 7) =
     Inr (pendingTask\<lparr>task_status := In_progress\<rparr>) \<and>
   fst (setStatus (snd (setStatus exampleState ''t1'' ''completed'' ''op'' 7)) ''t1''
          ''blocked'' ''op'' 8) = Inl ConflictError"
proof -
  have p: "task_status pendingTask \<noteq> Completed" by (simp add: pendingTask_def)
  from setStatus_transitions [OF ex_state_t1, of In_progress "''op''" 7] p
  have r1: "fst (setStatus exampleState ''t1'' ''in_progress'' ''op'' 7) =
      Inr (pendingTask\<lparr>task_status := In_progress\<rparr>)"
    by auto
  from setStatus_transitions [OF ex_state_t1, of Completed "''op''" 7]
  obtain st' where r2: "setStatus exampleState ''t1'' ''completed'' ''op'' 7 =
      (Inr (pendingTask\<lparr>task_status := Completed\<rparr>), st')"
    and s2: "tasks st' ''t1'' = Some (pendingTask\<lparr>task_status := Completed\<rparr>)"
    by auto
  from setStatus_transitions [OF s2, of Blocked "''op''" 8]
  have "fst (setStatus st' ''t1'' ''blocked'' ''op'' 8) = Inl ConflictError" by simp
  with r1 r2 ex_state_t1 show ?thesis by simp
qed

section \<open>Onboarding: steps and progress\<close>

lemma markCompleted_Inr:
  "markCompleted sid now ss = Inr ss' \<Longrightarrow>
   list_all2 (\<lambda>s s'. step_completed s \<longrightarrow> s' = s) ss ss' \<and>
   length (filter step_completed ss') = Suc (length (filter step_completed ss)) \<and>
   (\<exists>s. find (\<lambda>s. step_id s = sid) ss' = Some s \<and> step_completed s \<and>
        completed_at s = Some now)"
proof (induction ss arbitrary: ss')
  case Nil
  then show ?case by simp
next
  case (Cons s ss)
  show ?case
  proof (cases "step_id s = sid")
    case True
    with Cons.prems have nc: "\<not> step_completed s"
      and eq: "ss' = s\<lparr>step_completed := True, completed_at := Some now\<rparr> # ss"
      by (auto split: if_splits)
    have "list_all2 (\<lambda>s s'. step_completed s \<longrightarrow> s' = s) ss ss"
      by (simp add: list_all2_same)
    with nc eq True show ?thesis by simp
  next
    case False
    with Cons.prems obtain ss'' where m: "markCompleted sid now ss = Inr ss''"
      and eq: "ss' = s # ss''"
      by (auto split: sum.splits)
    from Cons.IH [OF m] eq False show ?thesis by simp
  qed
qed

lemma markCompleted_conflict:
  "find (\<lambda>s. step_id s = sid) ss = Some s \<Longrightarrow> step_completed s \<Longrightarrow>
   markCompleted sid now ss = Inl ConflictError"
  by (induction ss) (auto split: if_splits)










lemma completeStep_Inr:
  assumes "completeStep st tid sid actor now = (Inr r', st')"
  shows "\<exists>tal r ss'. talents st tid = Some tal \<and> onboarding st tid = Some r \<and>
           markCompleted sid now (steps r) = Inr ss' \<and> r' = r\<lparr>steps := ss'\<rparr> \<and>
           onboarding st' tid = Some r' \<and>
           talents st' tid =
             Some (if allCompleted r' then tal\<lparr>onboarding_complete := True\<rparr> else tal)"
  using assms
  by (auto simp: completeStep_def Let_def append_audit_def split: option.splits sum.splits)

lemma ex_state_a1:
  "talents exampleState ''a1'' = Some newTalent"
  "onboarding exampleState ''a1'' = Some (initialize defaultPolicy ''a1'')"
  by (simp_all add: exampleState_def)

lemma ex_first_step:
  "\<exists>r' st'. completeStep exampleState ''a1'' ''persona_setup'' ''op'' 7 = (Inr r', st')"
  by (simp add: completeStep_def ex_state_a1 initialize_def defaultPolicy_def Let_def)

lemma completeStep_Inl:
  "completeStep st tid sid actor now = (Inl e, st') \<Longrightarrow> st' = st"
  by (auto simp: completeStep_def Let_def split: option.splits sum.splits)

lemma frozen_refl: "list_all2 (\<lambda>s s'. step_completed s \<longrightarrow> s' = s) ss ss"
  by (simp add: list_all2_same)

lemma frozen_trans:
  assumes "list_all2 (\<lambda>s s'. step_completed s \<longrightarrow> s' = s) xs ys"
    and "list_all2 (\<lambda>s s'. step_completed s \<longrightarrow> s' = s) ys zs"
  shows "list_all2 (\<lambda>s s'. step_completed s \<longrightarrow> s' = (s :: onboarding_step)) xs zs"
  using _ assms
proof (rule list_all2_trans)
  fix a b c :: onboarding_step
  assume "step_completed a \<longrightarrow> b = a" and "step_completed b \<longrightarrow> c = b"
  then show "step_completed a \<longrightarrow> c = a" by auto
qed

lemma completeStep_preserves:
  assumes "onboarding st tid = Some r"
  shows "\<exists>r'. onboarding (snd (completeStep st tid2 sid2 actor now)) tid = Some r' \<and>
           list_all2 (\<lambda>s s'. step_completed s \<longrightarrow> s' = s) (steps r) (steps r')"
proof (cases "completeStep st tid2 sid2 actor now")
  case (Pair res st')
  show ?thesis
  proof (cases res)
    case (Inl e)
    with Pair have "st' = st" by (auto dest: completeStep_Inl)
    with Pair assms show ?thesis by (simp add: frozen_refl)
  next
    case (Inr r2)
    with Pair completeStep_Inr [of st tid2 sid2 actor now r2 st']
    obtain r0 ss' where o: "onboarding st tid2 = Some r0"
      and m: "markCompleted sid2 now (steps r0) = Inr ss'"
      and r2: "r2 = r0\<lparr>steps := ss'\<rparr>"
      and o': "onboarding st' tid2 = Some r2"
      by auto
    show ?thesis
    proof (cases "tid2 = tid")
      case True
      with o assms have "r0 = r" by simp
      with markCompleted_Inr [OF m] r2 o' True Pair show ?thesis by simp
    next
      case False
      with Pair Inr have "onboarding st' tid = onboarding st tid"
        by (auto simp: completeStep_def Let_def append_audit_def
            split: option.splits sum.splits)
      with Pair assms show ?thesis by (simp add: frozen_refl)
    qed
  qed
qed

lemma completeSteps_preserve:
  "onboarding st tid = Some r \<Longrightarrow>
   \<exists>r'. onboarding (completeSteps st calls) tid = Some r' \<and>
     list_all2 (\<lambda>s s'. step_completed s \<longrightarrow> s' = s) (steps r) (steps r')"
proof (induction calls arbitrary: st r)
  case Nil
  then show ?case by (simp add: frozen_refl)
next
  case (Cons call calls)
  obtain tid2 sid2 actor now where call: "call = (tid2, sid2, actor, now)"
    by (cases call) auto
  from completeStep_preserves [OF Cons.prems, of tid2 sid2 actor now]
  obtain r1 where o1: "onboarding (snd (completeStep st tid2 sid2 actor now)) tid = Some r1"
    and f1: "list_all2 (\<lambda>s s'. step_completed s \<longrightarrow> s' = s) (steps r) (steps r1)"
    by blast
  from Cons.IH [OF o1]
  obtain r2 where o2: "onboarding (completeSteps (snd (completeStep st tid2 sid2 actor now)) calls) tid = Some r2"
    and f2: "list_all2 (\<lambda>s s'. step_completed s \<longrightarrow> s' = s) (steps r1) (steps r2)"
    by blast
  from f1 f2 have "list_all2 (\<lambda>s s'. step_completed s \<longrightarrow> s' = s) (steps r) (steps r2)"
    by (rule frozen_trans)
  with o2 call show ?case by simp
qed






text \<open>
  The scenario of the specification on the example store: with three of the five
  steps completed the progress is 60; with all five it is 100 and the talent is
  flagged as onboarded.
\<close>

lemma onboarding_scenario:
  "map_option progress
     (onboarding (completeSteps exampleState
        [(''a1'', ''identity_verification'', ''op'', 1),
         (''a1'', ''contract_signing'', ''op'', 2),
         (''a1'', ''persona_setup'', ''op'', 3)]) ''a1'') = Some (Some 60) \<and>
   map_option progress
     (onboarding (completeSteps exampleState
        [(''a1'', ''identity_verification'', ''op'', 1),
         (''a1'', ''contract_signing'', ''op'', 2),
         (''a1'', ''persona_setup'', ''op'', 3),
         (''a1'', ''safety_briefing'', ''op'', 4),
         (''a1'', ''platform_access'', ''op'', 5)]) ''a1'') = Some (Some 100) \<and>
   map_option onboarding_complete
     (talents (completeSteps exampleState
        [(''a1'', ''identity_verification'', ''op'', 1),
         (''a1'', ''contract_signing'', ''op'', 2),
         (''a1'', ''persona_setup'', ''op'', 3),
         (''a1'', ''safety_briefing'', ''op'', 4),
         (''a1'', ''platform_access'', ''op'', 5)]) ''a1'') = Some True"
  by (simp add: completeStep_def ex_state_a1 initialize_def defaultPolicy_def Let_def
      append_audit_def allCompleted_def progress_def totalSteps_def completedCount_def
      roundDiv_def newTalent_def)



lemma completeStep_conflict:
  assumes "talents st tid = Some tal" and "onboarding st tid = Some r"
    and "find (\<lambda>s. step_id s = sid) (steps r) = Some s" and "step_completed s"
  shows "completeStep st tid sid actor now = (Inl ConflictError, st)"
  using assms by (simp add: completeStep_def markCompleted_conflict)

text \<open>
  C7. For an onboarding record of the store, completeStep on a step that is already
  completed fails with \<open>ConflictError\<close> and leaves the state as it is. When
  completeStep succeeds, the step is completed and stamped with the time of the call,
  every step that was completed before is exactly as it was, and every further
  completeStep of the same step fails with \<open>ConflictError\<close>. Over any run of
  completeStep calls, every step completed at the start is still there unchanged:
  completion is never undone.
\<close>

theorem completeStep_conflict_and_immutable:
  assumes "talents st tid = Some tal" and "onboarding st tid = Some r"
  shows "(\<forall>s. find (\<lambda>s. step_id s = sid) (steps r) = Some s \<and> step_completed s \<longrightarrow>
            completeStep st tid sid actor now = (Inl ConflictError, st)) \<and>
         (\<forall>r' st'. completeStep st tid sid actor now = (Inr r', st') \<longrightarrow>
            (\<exists>s. find (\<lambda>s. step_id s = sid) (steps r') = Some s \<and> step_completed s \<and>
                 completed_at s = Some now) \<and>
            list_all2 (\<lambda>s s'. step_completed s \<longrightarrow> s' = s) (steps r) (steps r') \<and>
            (\<forall>actor' later.
               completeStep st' tid sid actor' later = (Inl ConflictError, st'))) \<and>
         (\<forall>calls. \<exists>r''. onboarding (completeSteps st calls) tid = Some r'' \<and>
            list_all2 (\<lambda>s s'. step_completed s \<longrightarrow> s' = s) (steps r) (steps r''))"
proof -
  have a: "\<forall>s. find (\<lambda>s. step_id s = sid) (steps r) = Some s \<and> step_completed s \<longrightarrow>
      completeStep st tid sid actor now = (Inl ConflictError, st)"
    using assms by (auto intro: completeStep_conflict)
  have b: "\<forall>r' st'. completeStep st tid sid actor now = (Inr r', st') \<longrightarrow>
      (\<exists>s. find (\<lambda>s. step_id s = sid) (steps r') = Some s \<and> step_completed s \<and>
           completed_at s = Some now) \<and>
      list_all2 (\<lambda>s s'. step_completed s \<longrightarrow> s' = s) (steps r) (steps r') \<and>
      (\<forall>actor' later. completeStep st' tid sid actor' later = (Inl ConflictError, st'))"
  proof (intro allI impI)
    fix r' st'
    assume c: "completeStep st tid sid actor now = (Inr r', st')"
    from completeStep_Inr [OF c] assms
    obtain ss' where m: "markCompleted sid now (steps r) = Inr ss'"
      and r': "r' = r\<lparr>steps := ss'\<rparr>"
      and o': "onboarding st' tid = Some r'"
      and t': "talents st' tid =
             Some (if allCompleted r' then tal\<lparr>onboarding_complete := True\<rparr> else tal)"
      by auto
    from markCompleted_Inr [OF m] r'
    obtain s where f: "find (\<lambda>s. step_id s = sid) (steps r') = Some s"
      and sc: "step_completed s" and at: "completed_at s = Some now"
      and fr: "list_all2 (\<lambda>s s'. step_completed s \<longrightarrow> s' = s) (steps r) (steps r')"
      by auto
    have again: "\<forall>actor' later. completeStep st' tid sid actor' later = (Inl ConflictError, st')"
      using t' o' f sc by (auto intro: completeStep_conflict)
    from f sc at fr again
    show "(\<exists>s. find (\<lambda>s. step_id s = sid) (steps r') = Some s \<and> step_completed s \<and>
           completed_at s = Some now) \<and>
      list_all2 (\<lambda>s s'. step_completed s \<longrightarrow> s' = s) (steps r) (steps r') \<and>
      (\<forall>actor' later. completeStep st' tid sid actor' later = (Inl ConflictError, st'))"
      by blast
  qed
  have c: "\<forall>calls. \<exists>r''. onboarding (completeSteps st calls) tid = Some r'' \<and>
      list_all2 (\<lambda>s s'. step_completed s \<longrightarrow> s' = s) (steps r) (steps r'')"
    using assms(2) by (simp add: completeSteps_preserve)
  from a b c show ?thesis by blast
qed

theorem completeStep_conflict_and_immutable_witness:
  "talents exampleState ''a1'' = Some newTalent \<and>
   onboarding exampleState ''a1'' = Some (initialize defaultPolicy ''a1'') \<and>
   (\<exists>r' st'. completeStep exampleState ''a1'' ''persona_setup'' ''op'' 7 = (Inr r', st') \<and>
      fst (completeStep st' ''a1'' ''persona_setup'' ''op'' 8) = Inl ConflictError \<and>
      (\<exists>s. find (\<lambda>s. step_id s = ''persona_setup'') (steps r') = Some s \<and>
           step_completed s \<and> completed_at s = Some 7))"
proof -
  from ex_first_step obtain r' st'
    where c: "completeStep exampleState ''a1'' ''persona_setup'' ''op'' 7 = (Inr r', st')"
    by blast
  from completeStep_conflict_and_immutable [OF ex_state_a1, of "''persona_setup''" "''op''" 7] c
  have "(\<exists>s. find (\<lambda>s. step_id s = ''persona_setup'') (steps r') = Some s \<and>
           step_completed s \<and> completed_at s = Some 7) \<and>
      (\<forall>actor' later. completeStep st' ''a1'' ''persona_setup'' actor' later =
          (Inl ConflictError, st'))"
    by blast
  then have "fst (completeStep st' ''a1'' ''persona_setup'' ''op'' 8) = Inl ConflictError \<and>
      (\<exists>s. find (\<lambda>s. step_id s = ''persona_setup'') (steps r') = Some s \<and>
           step_completed s \<and> completed_at s = Some 7)"
    by simp
  with c ex_state_a1 show ?thesis by blast
qed

end
